theory Spec2Isabelle
  imports Main "HOL-Library.Word" "HOL-Library.Char_ord" "HOL-Library.List_Lexorder"
    "HOL-Library.Multiset"
begin

unbundle bit_operations_syntax

section \<open>The Go library functions kconf calls\<close>

text \<open>
  A Go \<^verbatim>\<open>string\<close> is a sequence of bytes, here a \<^typ>\<open>string\<close> (a list of
  \<^typ>\<open>char\<close>, one per byte). Go compares strings byte by byte, a proper prefix first:
  the lexicographic order on \<^typ>\<open>char list\<close>. Go's \<^verbatim>\<open>int\<close> is 64 bits wide; it is
  an \<^typ>\<open>int\<close> here, and \<open>Atoi\<close> below is the only producer of large values, where
  the 64-bit limits are written out.
\<close>

subsection \<open>strings\<close>

text \<open>
  \<^verbatim>\<open>strings.Split(s, ".")\<close> with a one-byte separator: the pieces of \<open>s\<close> between
  the separators, never an empty list (\<^verbatim>\<open>Split("", ".")\<close> is \<^verbatim>\<open>[""]\<close>).
\<close>

fun Split :: "string \<Rightarrow> char \<Rightarrow> string list" where
  "Split [] sep = [[]]"
| "Split (c # cs) sep =
     (if c = sep then [] # Split cs sep
      else (case Split cs sep of
              [] \<Rightarrow> [[c]]
            | p # ps \<Rightarrow> (c # p) # ps))"

text \<open>
  \<^verbatim>\<open>strings.TrimSpace\<close> removes the leading and the trailing white space of
  Unicode, read from the UTF-8 bytes of the string: the six ASCII characters tab, line
  feed, vertical tab, form feed, carriage return and space, and the code points U+0085,
  U+00A0, U+1680, U+2000 to U+200A, U+2028, U+2029, U+202F, U+205F and U+3000 in their
  (only valid) encodings.
\<close>

definition asciiSpace :: "char \<Rightarrow> bool" where
  "asciiSpace c \<longleftrightarrow> of_char c \<in> {9 :: nat, 10, 11, 12, 13, 32}"

definition spaceRunes :: "nat list list" where
  "spaceRunes =
     [[0xC2, 0x85], [0xC2, 0xA0], [0xE1, 0x9A, 0x80],
      [0xE2, 0x80, 0x80], [0xE2, 0x80, 0x81], [0xE2, 0x80, 0x82], [0xE2, 0x80, 0x83],
      [0xE2, 0x80, 0x84], [0xE2, 0x80, 0x85], [0xE2, 0x80, 0x86], [0xE2, 0x80, 0x87],
      [0xE2, 0x80, 0x88], [0xE2, 0x80, 0x89], [0xE2, 0x80, 0x8A],
      [0xE2, 0x80, 0xA8], [0xE2, 0x80, 0xA9], [0xE2, 0x80, 0xAF],
      [0xE2, 0x81, 0x9F], [0xE3, 0x80, 0x80]]"

text \<open>The number of bytes of the white-space rune \<open>s\<close> starts with, 0 when there is none.\<close>

definition leadingSpace :: "string \<Rightarrow> nat" where
  "leadingSpace s =
     (case s of
        [] \<Rightarrow> 0
      | c # _ \<Rightarrow>
          if asciiSpace c then 1
          else if take 2 (map of_char s) \<in> set spaceRunes then 2
          else if take 3 (map of_char s) \<in> set spaceRunes then 3
          else 0)"

text \<open>The same for the rune \<open>s\<close> ends with.\<close>

definition trailingSpace :: "string \<Rightarrow> nat" where
  "trailingSpace s =
     (let n = length s in
      if n = 0 then 0
      else if asciiSpace (last s) then 1
      else if 2 \<le> n \<and> drop (n - 2) (map of_char s) \<in> set spaceRunes then 2
      else if 3 \<le> n \<and> drop (n - 3) (map of_char s) \<in> set spaceRunes then 3
      else 0)"

function TrimLeft :: "string \<Rightarrow> string" where
  "TrimLeft s = (if leadingSpace s = 0 \<or> s = [] then s else TrimLeft (drop (leadingSpace s) s))"
  by pat_completeness auto
termination
  by (relation "measure length") auto

function TrimRight :: "string \<Rightarrow> string" where
  "TrimRight s =
     (if trailingSpace s = 0 \<or> s = [] then s
      else TrimRight (take (length s - trailingSpace s) s))"
  by pat_completeness auto
termination
  by (relation "measure length") auto

definition TrimSpace :: "string \<Rightarrow> string" where
  "TrimSpace s = TrimRight (TrimLeft s)"

subsection \<open>path and path/filepath (Unix)\<close>

text \<open>The elements of a path: the pieces between slashes.\<close>

definition elements :: "string \<Rightarrow> string list" where
  "elements p = Split p (CHR ''/'')"

text \<open>
  \<^verbatim>\<open>path.Clean\<close> works on the elements from left to right with a stack: an empty
  element (a repeated or trailing slash) and \<^verbatim>\<open>.\<close> are dropped; \<^verbatim>\<open>..\<close> removes the
  element before it, is dropped at the root, and is kept at the start of a path that is
  not rooted. The stack is kept reversed here.
\<close>

fun cleanElems :: "bool \<Rightarrow> string list \<Rightarrow> string list \<Rightarrow> string list" where
  "cleanElems rooted stack [] = rev stack"
| "cleanElems rooted stack (e # es) =
     (if e = [] \<or> e = ''.'' then cleanElems rooted stack es
      else if e = ''..'' then
        (case stack of
           [] \<Rightarrow> if rooted then cleanElems rooted [] es else cleanElems rooted [e] es
         | t # ts \<Rightarrow>
             if t = ''..'' then cleanElems rooted (e # stack) es
             else cleanElems rooted ts es)
      else cleanElems rooted (e # stack) es)"

fun joinElems :: "string list \<Rightarrow> string" where
  "joinElems [] = []"
| "joinElems [e] = e"
| "joinElems (e # es) = e @ ''/'' @ joinElems es"

definition IsAbs :: "string \<Rightarrow> bool" where
  "IsAbs p \<longleftrightarrow> (case p of [] \<Rightarrow> False | c # _ \<Rightarrow> c = CHR ''/'')"

definition Clean :: "string \<Rightarrow> string" where
  "Clean p =
     (let out = (if IsAbs p then ''/'' else []) @ joinElems (cleanElems (IsAbs p) [] (elements p))
      in if out = [] then ''.'' else out)"

text \<open>
  \<^verbatim>\<open>path.Join\<close> of two elements: empty elements are ignored, the rest is joined with
  a slash and cleaned; the join of nothing is the empty string.
\<close>

definition Join :: "string \<Rightarrow> string \<Rightarrow> string" where
  "Join a b =
     (if a = [] \<and> b = [] then []
      else if a = [] then Clean b
      else Clean (a @ ''/'' @ b))"

text \<open>
  \<^verbatim>\<open>path.Base\<close>: the last element of the path, trailing slashes removed first;
  \<^verbatim>\<open>.\<close> for the empty path and \<^verbatim>\<open>/\<close> for a path of slashes only.
\<close>

definition stripSlashes :: "string \<Rightarrow> string" where
  "stripSlashes p = rev (dropWhile (\<lambda>c. c = CHR ''/'') (rev p))"

definition Base :: "string \<Rightarrow> string" where
  "Base p =
     (if p = [] then ''.''
      else let q = rev (takeWhile (\<lambda>c. c \<noteq> CHR ''/'') (rev (stripSlashes p)))
           in if q = [] then ''/'' else q)"

subsection \<open>strconv\<close>

datatype NumError = ErrSyntax | ErrRange

definition digit :: "char \<Rightarrow> nat option" where
  "digit c =
     (let b = (of_char c :: nat) in if 48 \<le> b \<and> b \<le> 57 then Some (b - 48) else None)"

text \<open>
  \<^verbatim>\<open>strconv.ParseUint(s, 10, 64)\<close> after its check for the empty string: the digits
  are read from the left; a byte that is no digit is a syntax error with value 0, and a
  value that leaves 64 bits is a range error with the largest value, returned where it
  happens, the rest of the string unread.
\<close>

definition maxUint64 :: nat where
  "maxUint64 = 2 ^ 64 - 1"

fun parseDigits :: "nat \<Rightarrow> string \<Rightarrow> nat \<times> NumError option" where
  "parseDigits n [] = (n, None)"
| "parseDigits n (c # cs) =
     (case digit c of
        None \<Rightarrow> (0, Some ErrSyntax)
      | Some d \<Rightarrow>
          if n \<ge> maxUint64 div 10 + 1 then (maxUint64, Some ErrRange)
          else if n * 10 + d > maxUint64 then (maxUint64, Some ErrRange)
          else parseDigits (n * 10 + d) cs)"

text \<open>
  \<^verbatim>\<open>strconv.Atoi\<close>: an optional sign and decimal digits. What it returns beside an
  error is part of its result, since kconf goes on with that value: 0 beside a syntax
  error, the nearest 64-bit limit beside a range error.
\<close>

definition Atoi :: "string \<Rightarrow> int \<times> NumError option" where
  "Atoi s =
     (if s = [] then (0, Some ErrSyntax)
      else
        let neg = (hd s = CHR ''-'');
            body = (if hd s = CHR ''+'' \<or> hd s = CHR ''-'' then tl s else s)
        in if body = [] then (0, Some ErrSyntax)
           else
             (case parseDigits 0 body of
                (_, Some ErrSyntax) \<Rightarrow> (0, Some ErrSyntax)
              | (un, r) \<Rightarrow>
                  if \<not> neg \<and> un \<ge> 2 ^ 63 then (2 ^ 63 - 1, Some ErrRange)
                  else if neg \<and> un > 2 ^ 63 then (- (2 ^ 63), Some ErrRange)
                  else (if neg then - int un else int un, None)))"

text \<open>\<^verbatim>\<open>%d\<close> of a number that is not negative.\<close>

function itoa :: "nat \<Rightarrow> string" where
  "itoa n =
     (if n < 10 then [''0123456789'' ! n]
      else itoa (n div 10) @ [''0123456789'' ! (n mod 10)])"
  by pat_completeness auto
termination
  by (relation "measure id") auto

section \<open>The operating system\<close>

text \<open>
  What kconf sees of the machine: the file system, the working directory, the environment
  and what it has printed. The file system is a list of paths with what is there, in the
  order the kernel enumerates them; the paths are absolute and clean. A path handed to a
  system call is looked up under its absolute, clean spelling. Symbolic links are followed
  at the last element of a path only, and permissions are not modelled.
\<close>

datatype node = File | Directory | Symlink string

datatype Errno = ENOENT | EEXIST | ENOTDIR | EINVAL | ELOOP | ENOTEMPTY

record world =
  fs :: "(string \<times> node) list"
  cwd :: "string option"
  environ :: "(string \<times> string) list"
  stdout :: string

text \<open>
  Go's \<^verbatim>\<open>error\<close> values, by how kconf and the library build them: \<^verbatim>\<open>fmt.Errorf\<close> with
  no verb, with one \<^verbatim>\<open>%s\<close> and with one \<^verbatim>\<open>%q\<close> at the end of the format, and the
  errors of package \<^verbatim>\<open>os\<close>.
\<close>

datatype error =
    Errorf string
  | Errorf_s string string
  | Errorf_q string string
  | PathError string string Errno
  | LinkError string string string Errno
  | SyscallError string Errno
  | HomeNotDefined

text \<open>How a function of kconf ends: it returns an error or nil, or the run time panics.\<close>

datatype exit = Return "error option" | Panic

definition Getenv :: "world \<Rightarrow> string \<Rightarrow> string" where
  "Getenv w name = (case map_of (environ w) name of None \<Rightarrow> [] | Some v \<Rightarrow> v)"

definition println :: "world \<Rightarrow> string \<Rightarrow> world" where
  "println w s = w\<lparr>stdout := stdout w @ s @ [CHR 0x0A]\<rparr>"

text \<open>The spelling under which the kernel looks a path up; the empty path names nothing.\<close>

definition lookupKey :: "world \<Rightarrow> string \<Rightarrow> string option" where
  "lookupKey w p =
     (if p = [] then None
      else if IsAbs p then Some (Clean p)
      else (case cwd w of None \<Rightarrow> None | Some d \<Rightarrow> Some (Clean (d @ ''/'' @ p))))"

text \<open>\<^verbatim>\<open>lstat\<close>: what is at the path itself.\<close>

definition Lstat :: "world \<Rightarrow> string \<Rightarrow> Errno + (string \<times> node)" where
  "Lstat w p =
     (case lookupKey w p of
        None \<Rightarrow> Inl ENOENT
      | Some k \<Rightarrow> (case map_of (fs w) k of None \<Rightarrow> Inl ENOENT | Some n \<Rightarrow> Inr (k, n)))"

text \<open>
  The name of \<open>k\<close> inside the directory \<open>d\<close>, when \<open>k\<close> is a child of \<open>d\<close>: one
  element below it.
\<close>

definition childName :: "string \<Rightarrow> string \<Rightarrow> string option" where
  "childName d k =
     (let pre = (if d = ''/'' then d else d @ ''/'');
          name = drop (length pre) k
      in if take (length pre) k = pre \<and> name \<noteq> [] \<and> CHR ''/'' \<notin> set name
         then Some name else None)"

definition containing :: "string \<Rightarrow> string" where
  "containing k = Clean (k @ ''/..'')"

text \<open>
  \<^verbatim>\<open>stat\<close> follows symbolic links, a relative target read from the directory of the
  link, and gives up with \<^verbatim>\<open>ELOOP\<close> after 40 of them.
\<close>

fun follow :: "nat \<Rightarrow> world \<Rightarrow> string \<Rightarrow> Errno + (string \<times> node)" where
  "follow 0 w p = Inl ELOOP"
| "follow (Suc n) w p =
     (case Lstat w p of
        Inl e \<Rightarrow> Inl e
      | Inr (k, Symlink t) \<Rightarrow> follow n w (if IsAbs t then t else containing k @ ''/'' @ t)
      | Inr (k, nd) \<Rightarrow> Inr (k, nd))"

definition Stat :: "world \<Rightarrow> string \<Rightarrow> Errno + (string \<times> node)" where
  "Stat w p = follow 41 w p"

text \<open>A new entry needs a name that is free, in a directory that is there.\<close>

definition create :: "world \<Rightarrow> string \<Rightarrow> node \<Rightarrow> Errno + world" where
  "create w p n =
     (case lookupKey w p of
        None \<Rightarrow> Inl ENOENT
      | Some k \<Rightarrow>
          if map_of (fs w) k \<noteq> None then Inl EEXIST
          else (case map_of (fs w) (containing k) of
                  None \<Rightarrow> Inl ENOENT
                | Some Directory \<Rightarrow> Inr (w\<lparr>fs := fs w @ [(k, n)]\<rparr>)
                | Some _ \<Rightarrow> Inl ENOTDIR))"

text \<open>\<^verbatim>\<open>os.Symlink(oldname, newname)\<close> and \<^verbatim>\<open>os.Mkdir(name, perm)\<close>.\<close>

definition os_Symlink :: "world \<Rightarrow> string \<Rightarrow> string \<Rightarrow> error + world" where
  "os_Symlink w oldname newname =
     (case create w newname (Symlink oldname) of
        Inl e \<Rightarrow> Inl (LinkError ''symlink'' oldname newname e)
      | Inr w' \<Rightarrow> Inr w')"

definition os_Mkdir :: "world \<Rightarrow> string \<Rightarrow> error + world" where
  "os_Mkdir w name =
     (case create w name Directory of
        Inl e \<Rightarrow> Inl (PathError ''mkdir'' name e)
      | Inr w' \<Rightarrow> Inr w')"

text \<open>\<^verbatim>\<open>os.Readlink\<close>: the target of a symbolic link, as it was written.\<close>

definition os_Readlink :: "world \<Rightarrow> string \<Rightarrow> error + string" where
  "os_Readlink w name =
     (case Lstat w name of
        Inl e \<Rightarrow> Inl (PathError ''readlink'' name e)
      | Inr (k, Symlink t) \<Rightarrow> Inr t
      | Inr (k, _) \<Rightarrow> Inl (PathError ''readlink'' name EINVAL))"

text \<open>
  \<^verbatim>\<open>os.Remove\<close> removes the file, the symbolic link itself or the empty directory at
  the path.
\<close>

definition os_Remove :: "world \<Rightarrow> string \<Rightarrow> error + world" where
  "os_Remove w name =
     (case Lstat w name of
        Inl e \<Rightarrow> Inl (PathError ''remove'' name e)
      | Inr (k, n) \<Rightarrow>
          if n = Directory \<and> list_ex (\<lambda>(k', _). childName k k' \<noteq> None) (fs w)
          then Inl (PathError ''remove'' name ENOTEMPTY)
          else Inr (w\<lparr>fs := filter (\<lambda>(k', _). k' \<noteq> k) (fs w)\<rparr>))"

text \<open>
  \<^verbatim>\<open>fs.FileInfo\<close>, as far as kconf reads it: the name and the mode bits, a 32-bit
  word whose bit 31 marks a directory and bit 27 a symbolic link.
\<close>

record FileInfo =
  Name :: string
  Mode :: "32 word"

text \<open>
  The permission bits the kernel reports beside the type are of no concern to kconf;
  they are the usual ones here: octal 644, 755 and 777.
\<close>

definition ModeDir :: "32 word" where
  "ModeDir = push_bit 31 1"

definition ModeSymlink :: "32 word" where
  "ModeSymlink = push_bit 27 1"

definition IsDir :: "FileInfo \<Rightarrow> bool" where
  "IsDir fi \<longleftrightarrow> Mode fi AND ModeDir \<noteq> 0"

fun modeOf :: "node \<Rightarrow> 32 word" where
  "modeOf File = 420"
| "modeOf Directory = ModeDir OR 493"
| "modeOf (Symlink t) = ModeSymlink OR 511"

text \<open>The children of the directory \<open>k\<close>, in the order of the kernel.\<close>

definition children :: "world \<Rightarrow> string \<Rightarrow> FileInfo list" where
  "children w k =
     List.map_filter
       (\<lambda>(k', n). (case childName k k' of
                     None \<Rightarrow> None
                   | Some name \<Rightarrow> Some \<lparr>Name = name, Mode = modeOf n\<rparr>))
       (fs w)"

text \<open>
  \<^verbatim>\<open>ioutil.ReadDir\<close> opens the directory (following links), reads all its entries
  with \<^verbatim>\<open>lstat\<close> and sorts them by name.
\<close>

definition ReadDir :: "world \<Rightarrow> string \<Rightarrow> error + FileInfo list" where
  "ReadDir w dirname =
     (case Stat w dirname of
        Inl e \<Rightarrow> Inl (PathError ''open'' dirname e)
      | Inr (k, Directory) \<Rightarrow> Inr (sort_key Name (children w k))
      | Inr (k, _) \<Rightarrow> Inl (PathError ''readdirent'' dirname ENOTDIR))"

text \<open>\<^verbatim>\<open>filepath.Abs\<close> and \<^verbatim>\<open>os.UserHomeDir\<close> on Unix.\<close>

definition filepath_Abs :: "world \<Rightarrow> string \<Rightarrow> error + string" where
  "filepath_Abs w path =
     (if IsAbs path then Inr (Clean path)
      else (case cwd w of
              None \<Rightarrow> Inl (SyscallError ''getwd'' ENOENT)
            | Some wd \<Rightarrow> Inr (Join wd path)))"

definition UserHomeDir :: "world \<Rightarrow> error + string" where
  "UserHomeDir w = (if Getenv w ''HOME'' = [] then Inl HomeNotDefined else Inr (Getenv w ''HOME''))"

text \<open>A slice expression \<^verbatim>\<open>xs[n:]\<close> and an index expression \<^verbatim>\<open>xs[i]\<close>; both panic out of range.\<close>

definition sliceFrom :: "'a list \<Rightarrow> nat \<Rightarrow> 'a list option" where
  "sliceFrom xs n = (if n \<le> length xs then Some (drop n xs) else None)"

definition index :: "'a list \<Rightarrow> int \<Rightarrow> 'a option" where
  "index xs i = (if 0 \<le> i \<and> i < int (length xs) then Some (xs ! nat i) else None)"

section \<open>kconf\<close>

definition defaultConfigDir :: string where
  "defaultConfigDir = ''.kconf''"

definition kubeConfigVar :: string where
  "kubeConfigVar = ''KUBECONFIG''"

definition confPathVar :: string where
  "confPathVar = ''KCONF_LIBRARY_PATH''"

subsection \<open>Config\<close>

record Config =
  Add :: bool
  Set :: bool
  List :: bool
  Remove :: bool
  Ops :: "8 word"

text \<open>
  \<^verbatim>\<open>Config.Flags\<close>. The four booleans are what \<^verbatim>\<open>flag.Parse\<close> found for
  \<^verbatim>\<open>-a\<close>, \<^verbatim>\<open>-s\<close>, \<^verbatim>\<open>-l\<close> and \<^verbatim>\<open>-r\<close> on the command line \<open>osArgs\<close>
  (\<^verbatim>\<open>os.Args\<close>, the name of the program first). The defaults set a flag of the
  configuration and leave \<open>Ops\<close> at 0.
\<close>

definition Flags :: "bool \<Rightarrow> bool \<Rightarrow> bool \<Rightarrow> bool \<Rightarrow> string list \<Rightarrow> Config" where
  "Flags a s l r osArgs =
     (let c0 = \<lparr>Add = a, Set = s, List = l, Remove = r, Ops = 0\<rparr>;
          c1 = (if Add c0 then c0\<lparr>Ops := Ops c0 OR 1\<rparr> else c0);
          c2 = (if Set c1 then c1\<lparr>Ops := Ops c1 OR 2\<rparr> else c1);
          c3 = (if List c2 then c2\<lparr>Ops := Ops c2 OR 4\<rparr> else c2);
          c4 = (if Remove c3 then c3\<lparr>Ops := Ops c3 OR 8\<rparr> else c3)
      in if Ops c4 = 0 then
           (if length osArgs = 1 then c4\<lparr>List := True\<rparr>
            else if length osArgs = 2 then c4\<lparr>Set := True\<rparr>
            else if length osArgs = 3 then c4\<lparr>Add := True\<rparr>
            else c4)
         else c4)"

text \<open>\<^verbatim>\<open>Config.Args\<close>; \<open>None\<close> is the panic of a slice out of range.\<close>

definition Args :: "Config \<Rightarrow> string list \<Rightarrow> string list option" where
  "Args c osArgs = (if Ops c = 0 then sliceFrom osArgs 1 else sliceFrom osArgs 2)"

definition Validate :: "Config \<Rightarrow> bool" where
  "Validate c \<longleftrightarrow> Ops c = 0 \<or> Ops c = 1 \<or> Ops c = 2 \<or> Ops c = 4 \<or> Ops c = 8"

subsection \<open>The handlers\<close>

definition exists :: "world \<Rightarrow> string \<Rightarrow> bool" where
  "exists w path \<longleftrightarrow> \<not> (Stat w path = Inl ENOENT)"

text \<open>
  \<^verbatim>\<open>addKubeconfig\<close>. Its switch on the number of arguments, which gives the name of
  the link, is \<open>slinkOf\<close>; it is reached with one argument at least.
\<close>

definition slinkOf :: "string list \<Rightarrow> string" where
  "slinkOf args =
     (if length args = 1 then Split (Base (args ! 0)) (CHR ''.'') ! 0 else args ! 1)"

definition addKubeconfig :: "world \<Rightarrow> string \<Rightarrow> string list \<Rightarrow> exit \<times> world" where
  "addKubeconfig w configPath args =
     (if length args < 1 then (Return (Some (Errorf ''not enough arguments'')), w)
      else
        let slink = slinkOf args;
            symlink = configPath @ ''/'' @ slink
        in (case filepath_Abs w (args ! 0) of
              Inl err \<Rightarrow> (Return (Some err), w)
            | Inr file \<Rightarrow>
                if \<not> exists w file then
                  (Return (Some (Errorf_s ''kubeconfig not found: '' file)), w)
                else if exists w symlink then
                  (Return (Some (Errorf_q ''kubeconfig already exists: '' slink)), w)
                else
                  (case os_Symlink w file symlink of
                     Inl err \<Rightarrow> (Return (Some err), w)
                   | Inr w' \<Rightarrow>
                       (Return None, println w' (slink @ '' -> '' @ file @ '' added'')))))"

definition listSymDir :: "world \<Rightarrow> string \<Rightarrow> error + FileInfo list" where
  "listSymDir w dir =
     (case ReadDir w dir of
        Inl err \<Rightarrow> Inl err
      | Inr files \<Rightarrow>
          Inr (filter (\<lambda>file. \<not> IsDir file \<and> Mode file AND ModeSymlink = ModeSymlink) files))"

text \<open>The lines \<^verbatim>\<open>listKubeconfigs\<close> prints for the files from index \<open>i\<close> on.\<close>

fun listLines :: "string \<Rightarrow> string \<Rightarrow> nat \<Rightarrow> FileInfo list \<Rightarrow> string" where
  "listLines configPath currKubeConfig i [] = []"
| "listLines configPath currKubeConfig i (file # files) =
     (if Join configPath (Name file) = currKubeConfig then ''* '' else ''  '')
       @ itoa (i + 1) @ '') '' @ Name file @ [CHR 0x0A]
       @ listLines configPath currKubeConfig (i + 1) files"

definition listKubeconfigs :: "world \<Rightarrow> string \<Rightarrow> string list \<Rightarrow> exit \<times> world" where
  "listKubeconfigs w configPath args =
     (case listSymDir w configPath of
        Inl err \<Rightarrow> (Return (Some err), w)
      | Inr files \<Rightarrow>
          (Return None,
           w\<lparr>stdout := stdout w @ listLines configPath (Getenv w kubeConfigVar) 0 files\<rparr>))"

text \<open>
  \<^verbatim>\<open>makeKubeconfig\<close>. The loop over the files returns at the first file of the wanted
  name, which is \<open>find\<close>. After a failed \<open>Atoi\<close> and no such file, the function goes
  on with the number \<open>Atoi\<close> returned beside its error.
\<close>

definition makeKubeconfig ::
  "world \<Rightarrow> string \<Rightarrow> string list \<Rightarrow> (world \<Rightarrow> string \<Rightarrow> error option \<times> world) \<Rightarrow> exit \<times> world"
where
  "makeKubeconfig w configPath args result =
     (if length args = 0 then (Return (Some (Errorf ''not enough arguments'')), w)
      else
        (case listSymDir w configPath of
           Inl err \<Rightarrow> (Return None, w)
         | Inr files \<Rightarrow>
             (case Atoi (args ! 0) of
                (idx, err) \<Rightarrow>
                  (case (if err \<noteq> None
                         then find (\<lambda>file. Name file = TrimSpace (args ! 0)) files
                         else None) of
                     Some file \<Rightarrow>
                       (case result w (Join configPath (Name file)) of
                          (e, w') \<Rightarrow> (Return e, w'))
                   | None \<Rightarrow>
                       if idx < 0 \<or> idx > int (length files) then
                         (Return (Some (Errorf ''index out of range'')), w)
                       else
                         (case index files (idx - 1) of
                            None \<Rightarrow> (Panic, w)
                          | Some file \<Rightarrow>
                              (case result w (Join configPath (Name file)) of
                                 (e, w') \<Rightarrow> (Return e, w')))))))"

text \<open>The functions \<^verbatim>\<open>output\<close> and \<^verbatim>\<open>remove\<close> of the source.\<close>

definition output_line :: "world \<Rightarrow> string \<Rightarrow> error option \<times> world" where
  "output_line w linkPath = (None, println w (''export '' @ kubeConfigVar @ ''='' @ linkPath))"

definition remove_link :: "world \<Rightarrow> string \<Rightarrow> error option \<times> world" where
  "remove_link w linkPath =
     (case os_Readlink w linkPath of
        Inl err \<Rightarrow> (Some err, w)
      | Inr kubeConfigPath \<Rightarrow>
          (case os_Remove w linkPath of
             Inl err \<Rightarrow> (Some err, w)
           | Inr w' \<Rightarrow>
               (None, println w' (Base linkPath @ '' -> '' @ kubeConfigPath @ '' removed''))))"

definition setKubeconfig :: "world \<Rightarrow> string \<Rightarrow> string list \<Rightarrow> exit \<times> world" where
  "setKubeconfig w configPath args = makeKubeconfig w configPath args output_line"

definition removeKubeconfig :: "world \<Rightarrow> string \<Rightarrow> string list \<Rightarrow> exit \<times> world" where
  "removeKubeconfig w configPath args = makeKubeconfig w configPath args remove_link"

text \<open>\<^verbatim>\<open>Config.Handler\<close>.\<close>

definition Handler :: "Config \<Rightarrow> world \<Rightarrow> string \<Rightarrow> string list \<Rightarrow> exit \<times> world" where
  "Handler c =
     (if Add c then addKubeconfig
      else if Set c then setKubeconfig
      else if List c then listKubeconfigs
      else if Remove c then removeKubeconfig
      else (\<lambda>w configPath args. (Return None, w)))"

subsection \<open>main\<close>

definition configPath :: "world \<Rightarrow> (string \<times> error option) \<times> world" where
  "configPath w =
     (let env = TrimSpace (Getenv w confPathVar);
          found = (if length env = 0 then
                     (case UserHomeDir w of
                        Inl err \<Rightarrow> Inl err
                      | Inr homeDir \<Rightarrow> Inr (homeDir @ ''/'' @ defaultConfigDir))
                   else Inr env)
      in (case found of
            Inl err \<Rightarrow> (([], Some err), w)
          | Inr path \<Rightarrow>
              if exists w path then ((path, None), w)
              else (case os_Mkdir w path of
                      Inl err \<Rightarrow> ((path, Some err), w)
                    | Inr w' \<Rightarrow> ((path, None), w'))))"

text \<open>The text of an errno, and \<^verbatim>\<open>err.Error()\<close>; \<open>quote\<close> is what \<^verbatim>\<open>%q\<close> makes of a string.\<close>

fun errnoText :: "Errno \<Rightarrow> string" where
  "errnoText ENOENT = ''no such file or directory''"
| "errnoText EEXIST = ''file exists''"
| "errnoText ENOTDIR = ''not a directory''"
| "errnoText EINVAL = ''invalid argument''"
| "errnoText ELOOP = ''too many levels of symbolic links''"
| "errnoText ENOTEMPTY = ''directory not empty''"

fun Error :: "(string \<Rightarrow> string) \<Rightarrow> error \<Rightarrow> string" where
  "Error quote (Errorf s) = s"
| "Error quote (Errorf_s s a) = s @ a"
| "Error quote (Errorf_q s a) = s @ quote a"
| "Error quote (PathError op path e) = op @ '' '' @ path @ '': '' @ errnoText e"
| "Error quote (LinkError op old new e) = op @ '' '' @ old @ '' '' @ new @ '': '' @ errnoText e"
| "Error quote (SyscallError call e) = call @ '': '' @ errnoText e"
| "Error quote HomeNotDefined = ''$HOME is not defined''"

text \<open>
  \<^verbatim>\<open>main\<close>, from the flags \<^verbatim>\<open>flag.Parse\<close> found and the command line to the exit
  status of the process and the world it leaves: 0 at the end of \<^verbatim>\<open>main\<close>, 1 from
  \<^verbatim>\<open>os.Exit(1)\<close>, 2 after a panic.
\<close>

definition main ::
  "(string \<Rightarrow> string) \<Rightarrow> world \<Rightarrow> bool \<Rightarrow> bool \<Rightarrow> bool \<Rightarrow> bool \<Rightarrow> string list \<Rightarrow> int \<times> world"
where
  "main quote w a s l r osArgs =
     (let cfg = Flags a s l r osArgs
      in if \<not> Validate cfg then (1, println w ''error validating flags'')
         else
           (case configPath w of
              ((path, Some err), w1) \<Rightarrow>
                (1, println w1 (''error getting config path: '' @ Error quote err))
            | ((path, None), w1) \<Rightarrow>
                (case Args cfg osArgs of
                   None \<Rightarrow> (2, w1)
                 | Some args \<Rightarrow>
                     (case Handler cfg w1 path args of
                        (Panic, w2) \<Rightarrow> (2, w2)
                      | (Return (Some err), w2) \<Rightarrow>
                          (1, println w2 (''error handling request: '' @ Error quote err))
                      | (Return None, w2) \<Rightarrow> (0, w2)))))"

section \<open>An example world\<close>

text \<open>
  Bob's machine: a store with the entries \<^verbatim>\<open>prod\<close> and \<^verbatim>\<open>my\<close> (whose target is
  gone), and beside them a regular file and a directory, which are no entries.
\<close>

definition bobs_world :: world where
  "bobs_world =
     \<lparr>fs = [(''/'', Directory), (''/etc'', Directory), (''/etc/prod.yml'', File),
            (''/etc/kube_config_cluster.yml'', File),
            (''/home'', Directory), (''/home/bob'', Directory),
            (''/home/bob/.kconf'', Directory),
            (''/home/bob/.kconf/prod'', Symlink ''/etc/prod.yml''),
            (''/home/bob/.kconf/notes'', File),
            (''/home/bob/.kconf/old'', Directory),
            (''/home/bob/.kconf/my'', Symlink ''/etc/my.yml'')],
      cwd = Some ''/home/bob'',
      environ = [(''HOME'', ''/home/bob''), (''KUBECONFIG'', ''/home/bob/.kconf/prod'')],
      stdout = []\<rparr>"

section \<open>Evaluation on concrete worlds\<close>

lemma follow_numeral [simp]:
  "follow (numeral n) w p =
     (case Lstat w p of
        Inl e \<Rightarrow> Inl e
      | Inr (k, Symlink t) \<Rightarrow>
          follow (pred_numeral n) w (if IsAbs t then t else containing k @ ''/'' @ t)
      | Inr (k, nd) \<Rightarrow> Inr (k, nd))"
  by (simp add: numeral_eq_Suc)

lemmas path_defs = IsAbs_def Clean_def elements_def Join_def Base_def stripSlashes_def
  containing_def

lemmas os_defs = Stat_def Lstat_def lookupKey_def create_def os_Symlink_def os_Mkdir_def
  os_Readlink_def os_Remove_def ReadDir_def children_def childName_def List.map_filter_def
  filepath_Abs_def UserHomeDir_def Getenv_def println_def sliceFrom_def index_def
  ModeDir_def ModeSymlink_def IsDir_def

lemmas strconv_defs = Atoi_def digit_def maxUint64_def

lemmas strings_defs = TrimSpace_def leadingSpace_def trailingSpace_def asciiSpace_def
  spaceRunes_def

section \<open>The operation selector\<close>

lemma Ops_Flags:
  "Ops (Flags a s l r osArgs) =
     (if a then 1 else 0) OR (if s then 2 else 0) OR (if l then 4 else 0) OR (if r then 8 else 0)"
  by (cases a; cases s; cases l; cases r) (simp_all add: Flags_def Let_def)

text \<open>
  C6. Whatever the four flags are, \<open>Validate\<close> holds of the configuration \<open>Flags\<close>
  builds exactly when at most one flag is set. With two or more flags set, \<open>main\<close>
  prints the validation error and exits with status 1: no configuration path is looked
  up, no handler runs, and the file system is the one it started with.
\<close>

theorem flags_validation:
  "(Validate (Flags a s l r osArgs) \<longleftrightarrow> length (filter id [a, s, l, r]) \<le> 1) \<and>
   (2 \<le> length (filter id [a, s, l, r]) \<longrightarrow>
      main quote w a s l r osArgs = (1, println w ''error validating flags'') \<and>
      fs (snd (main quote w a s l r osArgs)) = fs w)"
  by (cases a; cases s; cases l; cases r)
     (simp_all add: Validate_def Ops_Flags main_def Let_def println_def)

theorem flags_validation_witness:
  "\<not> Validate (Flags True True False False [''kconf'', ''-a'', ''-s'', ''my'']) \<and>
   main (\<lambda>s. s) \<lparr>fs = [(''/'', Directory)], cwd = None, environ = [], stdout = []\<rparr>
        True True False False [''kconf'', ''-a'', ''-s'', ''my'']
     = (1, \<lparr>fs = [(''/'', Directory)], cwd = None, environ = [],
             stdout = ''error validating flags'' @ [CHR 0x0A]\<rparr>)"
  using flags_validation [of True True False False "[''kconf'', ''-a'', ''-s'', ''my'']" "\<lambda>s. s"
      "\<lparr>fs = [(''/'', Directory)], cwd = None, environ = [], stdout = []\<rparr>"]
  by (simp add: println_def)



section \<open>Add\<close>

lemma Split_not_Nil: "Split s sep \<noteq> []"
  by (induction s) (auto split: list.splits)

lemma Split_first: "Split s sep ! 0 = takeWhile (\<lambda>c. c \<noteq> sep) s"
  by (induction s) (auto simp: Split_not_Nil split: list.splits)

text \<open>
  C8. Add with the file alone does what Add does with the file and, as the alias, the
  base name of the file up to its first dot; for \<^verbatim>\<open>kube_config_cluster.yml\<close> that is
  \<^verbatim>\<open>kube_config_cluster\<close>.
\<close>

theorem alias_from_base_name:
  "addKubeconfig w dir [file]
     = addKubeconfig w dir [file, takeWhile (\<lambda>c. c \<noteq> CHR ''.'') (Base file)] \<and>
   slinkOf [''/home/bob/git/deployment/env/bob/kube_config_cluster.yml''] = ''kube_config_cluster''"
  by (simp add: addKubeconfig_def slinkOf_def Split_first Base_def stripSlashes_def)

theorem alias_from_base_name_witness:
  "addKubeconfig \<lparr>fs = [(''/'', Directory), (''/s'', Directory), (''/cfg.v1.yml'', File)],
                    cwd = Some ''/'', environ = [], stdout = []\<rparr> ''/s'' [''/cfg.v1.yml'']
     = (Return None,
        \<lparr>fs = [(''/'', Directory), (''/s'', Directory), (''/cfg.v1.yml'', File),
               (''/s/cfg'', Symlink ''/cfg.v1.yml'')],
         cwd = Some ''/'', environ = [],
         stdout = ''cfg -> /cfg.v1.yml added'' @ [CHR 0x0A]\<rparr>)"
  using alias_from_base_name [of
      "\<lparr>fs = [(''/'', Directory), (''/s'', Directory), (''/cfg.v1.yml'', File)],
        cwd = Some ''/'', environ = [], stdout = []\<rparr>" "''/s''" "''/cfg.v1.yml''"]
  by (simp add: addKubeconfig_def slinkOf_def exists_def path_defs os_defs Let_def)

section \<open>The listing of the store\<close>

lemma symlink_mode:
  "(\<not> IsDir \<lparr>Name = x, Mode = modeOf n\<rparr> \<and> modeOf n AND ModeSymlink = ModeSymlink)
     \<longleftrightarrow> (\<exists>t. n = Symlink t)"
  by (cases n) (simp_all add: IsDir_def ModeDir_def ModeSymlink_def)

lemma in_map_filter: "y \<in> set (List.map_filter g xs) \<longleftrightarrow> (\<exists>x \<in> set xs. g x = Some y)"
  by (induction xs) (auto split: option.splits)

lemma children_iff:
  "fi \<in> set (children w k) \<longleftrightarrow>
     (\<exists>k' n. (k', n) \<in> set (fs w) \<and> childName k k' = Some (Name fi) \<and> Mode fi = modeOf n)"
proof -
  have "(case childName k k' of None \<Rightarrow> None
         | Some name \<Rightarrow> Some \<lparr>Name = name, Mode = modeOf n\<rparr>) = Some fi
        \<longleftrightarrow> childName k k' = Some (Name fi) \<and> Mode fi = modeOf n" for k' n
    by (cases fi) (auto split: option.splits)
  then show ?thesis
    unfolding children_def in_map_filter by (simp add: Bex_def split_beta) 
qed

lemma listSymDir_Inr:
  assumes "listSymDir w dir = Inr files"
  obtains k where "Stat w dir = Inr (k, Directory)"
    and "files = filter (\<lambda>file. \<not> IsDir file \<and> Mode file AND ModeSymlink = ModeSymlink)
                   (sort_key Name (children w k))"
  using assms
  by (auto simp: listSymDir_def ReadDir_def split: sum.splits node.splits)

lemma listSymDir_sorted:
  assumes "listSymDir w dir = Inr files"
  shows "sorted (map Name files)"
  using assms by (elim listSymDir_Inr) (simp add: sorted_filter)

lemma listSymDir_set:
  assumes "listSymDir w dir = Inr files" "Stat w dir = Inr (k, Directory)"
  shows "set files = {\<lparr>Name = name, Mode = modeOf (Symlink t)\<rparr> | name t k'.
                        (k', Symlink t) \<in> set (fs w) \<and> childName k k' = Some name}"
proof -
  have "fi \<in> set files \<longleftrightarrow>
          (\<exists>name t k'. fi = \<lparr>Name = name, Mode = modeOf (Symlink t)\<rparr> \<and>
             (k', Symlink t) \<in> set (fs w) \<and> childName k k' = Some name)" for fi
  proof -
    obtain x m where fi: "fi = \<lparr>Name = x, Mode = m\<rparr>" by (cases fi) auto
    have "fi \<in> set files \<longleftrightarrow>
            fi \<in> set (children w k) \<and> \<not> IsDir fi \<and> Mode fi AND ModeSymlink = ModeSymlink"
      using assms by (elim listSymDir_Inr) auto
    also have "\<dots> \<longleftrightarrow> (\<exists>k' t. (k', Symlink t) \<in> set (fs w) \<and> childName k k' = Some x
                              \<and> m = modeOf (Symlink t))" (is "?L \<longleftrightarrow> ?R")
    proof
      assume ?L
      then obtain k' n where *: "(k', n) \<in> set (fs w)" "childName k k' = Some x" "m = modeOf n"
        and "\<not> IsDir \<lparr>Name = x, Mode = modeOf n\<rparr> \<and> modeOf n AND ModeSymlink = ModeSymlink"
        unfolding children_iff fi by auto
      then obtain t where "n = Symlink t" using symlink_mode by blast
      with * show ?R by blast
    next
      assume ?R
      then obtain k' t where *: "(k', Symlink t) \<in> set (fs w)" "childName k k' = Some x"
          "m = modeOf (Symlink t)" by blast
      have "\<not> IsDir \<lparr>Name = x, Mode = modeOf (Symlink t)\<rparr> \<and>
            modeOf (Symlink t) AND ModeSymlink = ModeSymlink"
        using symlink_mode [of x "Symlink t"] by blast
      with * show ?L unfolding children_iff fi by (simp del: modeOf.simps) blast
    qed
    finally show ?thesis unfolding fi by auto
  qed
  then show ?thesis by blast
qed

lemma childName_inj: "childName k a = Some x \<Longrightarrow> childName k b = Some x \<Longrightarrow> a = b"
proof -
  assume a: "childName k a = Some x" and b: "childName k b = Some x"
  define n where "n = length (if k = ''/'' then k else k @ ''/'')"
  from a have "take n a = (if k = ''/'' then k else k @ ''/'')" "drop n a = x"
    by (auto simp: childName_def Let_def n_def split: if_splits)
  moreover from b have "take n b = (if k = ''/'' then k else k @ ''/'')" "drop n b = x"
    by (auto simp: childName_def Let_def n_def split: if_splits)
  ultimately have "take n a @ drop n a = take n b @ drop n b" by simp
  then show "a = b" by simp
qed

lemma children_Name_inj:
  assumes "distinct (map fst (fs w))"
  shows "inj_on Name (set (children w k))"
proof (rule inj_onI)
  fix a b assume "a \<in> set (children w k)" "b \<in> set (children w k)" "Name a = Name b"
  then obtain ka na kb nb where
    a: "(ka, na) \<in> set (fs w)" "childName k ka = Some (Name a)" "Mode a = modeOf na" and
    b: "(kb, nb) \<in> set (fs w)" "childName k kb = Some (Name a)" "Mode b = modeOf nb"
    unfolding children_iff by auto
  from a(2) b(2) have "ka = kb" by (rule childName_inj)
  with a(1) b(1) assms have "na = nb" by (meson eq_key_imp_eq_value)
  with a(3) b(3) \<open>Name a = Name b\<close> show "a = b" by simp
qed

lemma Lstat_cong:
  "map_of (fs w') = map_of (fs w) \<Longrightarrow> cwd w' = cwd w \<Longrightarrow> Lstat w' p = Lstat w p"
  unfolding Lstat_def lookupKey_def by (simp split: option.splits)

lemma follow_cong:
  assumes "map_of (fs w') = map_of (fs w)" "cwd w' = cwd w"
  shows "follow n w' p = follow n w p"
proof (induction n arbitrary: p)
  case 0
  show ?case by simp
next
  case (Suc n)
  show ?case
    by (simp add: Lstat_cong [OF assms] Suc split: sum.splits prod.splits node.splits)
qed

lemma mset_map_filter:
  "mset (List.map_filter g xs) = image_mset (the \<circ> g) (filter_mset (\<lambda>x. g x \<noteq> None) (mset xs))"
  by (induction xs) (auto split: option.splits)

lemma children_mset:
  "mset (fs w') = mset (fs w) \<Longrightarrow> mset (children w' k) = mset (children w k)"
  by (simp add: children_def mset_map_filter)

lemma listSymDir_deterministic:
  assumes "set (fs w') = set (fs w)" "cwd w' = cwd w"
    and d: "distinct (map fst (fs w))" and d': "distinct (map fst (fs w'))"
  shows "listSymDir w' dir = listSymDir w dir"
proof -
  from d d' have dd: "distinct (fs w)" "distinct (fs w')" by (auto simp: distinct_map)
  with assms(1) have m: "mset (fs w') = mset (fs w)" by (simp add: set_eq_iff_mset_eq_distinct)
  from assms(1) d d' have mo: "map_of (fs w') = map_of (fs w)" by (simp add: map_of_inject_set)
  have s: "Stat w' dir = Stat w dir" unfolding Stat_def using mo assms(2) by (rule follow_cong)
  have "sort_key Name (children w' k) = sort_key Name (children w k)" for k
    by (rule sort_key_eq_sort_key) (simp_all add: children_mset [OF m] children_Name_inj [OF d'])
  then have "ReadDir w' dir = ReadDir w dir"
    by (simp add: ReadDir_def s split: sum.splits prod.splits node.splits)
  then show ?thesis by (simp add: listSymDir_def)
qed

lemma makeKubeconfig_index:
  assumes "listSymDir w dir = Inr files" "Atoi sel = (i, None)"
  shows "makeKubeconfig w dir (sel # rest) result =
           (if i < 0 \<or> i > int (length files) then (Return (Some (Errorf ''index out of range'')), w)
            else if i = 0 then (Panic, w)
            else (case result w (Join dir (Name (files ! nat (i - 1)))) of (e, w') \<Rightarrow> (Return e, w')))"
  using assms by (simp add: makeKubeconfig_def index_def)

section \<open>Set and Remove: the selector\<close>

lemma bobs_listing:
  "listSymDir bobs_world ''/home/bob/.kconf''
     = Inr [\<lparr>Name = ''my'', Mode = modeOf (Symlink ''/etc/my.yml'')\<rparr>,
            \<lparr>Name = ''prod'', Mode = modeOf (Symlink ''/etc/prod.yml'')\<rparr>]"
  by (simp add: listSymDir_def bobs_world_def os_defs path_defs)

text \<open>
  C4. In a store that lists \<open>files\<close>, a selector that is the number \<open>i\<close> with
  \<open>1 \<le> i \<le> length files\<close> hands the path of the \<open>i\<close>-th file of the listing to the
  result function, and what that returns is returned. The listing is sorted by name, it
  holds exactly the children of the store directory that are symbolic links (no directory
  and no regular file), and it is the same in whatever order the kernel enumerates the
  file system.
\<close>

theorem index_selects_listed_entry:
  assumes "listSymDir w dir = Inr files" and "Atoi sel = (i, None)"
    and "1 \<le> i" and "i \<le> int (length files)"
  shows "makeKubeconfig w dir (sel # rest) result
           = (case result w (Join dir (Name (files ! nat (i - 1)))) of (e, w') \<Rightarrow> (Return e, w')) \<and>
         sorted (map Name files) \<and>
         (\<exists>k. Stat w dir = Inr (k, Directory) \<and>
              set files = {\<lparr>Name = name, Mode = modeOf (Symlink t)\<rparr> | name t k'.
                             (k', Symlink t) \<in> set (fs w) \<and> childName k k' = Some name}) \<and>
         (\<forall>w'. set (fs w') = set (fs w) \<and> cwd w' = cwd w \<and>
               distinct (map fst (fs w)) \<and> distinct (map fst (fs w'))
               \<longrightarrow> listSymDir w' dir = Inr files)"
proof -
  from assms have "makeKubeconfig w dir (sel # rest) result
      = (case result w (Join dir (Name (files ! nat (i - 1)))) of (e, w') \<Rightarrow> (Return e, w'))"
    by (simp add: makeKubeconfig_index)
  moreover have "sorted (map Name files)"
    using assms(1) by (rule listSymDir_sorted)
  moreover obtain k where "Stat w dir = Inr (k, Directory)"
    using assms(1) by (rule listSymDir_Inr)
  with assms(1) have "\<exists>k. Stat w dir = Inr (k, Directory) \<and>
      set files = {\<lparr>Name = name, Mode = modeOf (Symlink t)\<rparr> | name t k'.
                     (k', Symlink t) \<in> set (fs w) \<and> childName k k' = Some name}"
    using listSymDir_set by blast
  moreover have "\<forall>w'. set (fs w') = set (fs w) \<and> cwd w' = cwd w \<and>
               distinct (map fst (fs w)) \<and> distinct (map fst (fs w'))
               \<longrightarrow> listSymDir w' dir = Inr files"
    using listSymDir_deterministic assms(1) by metis
  ultimately show ?thesis by blast
qed

theorem index_selects_listed_entry_witness:
  "makeKubeconfig bobs_world ''/home/bob/.kconf'' [''2''] output_line
     = (Return None, println bobs_world ''export KUBECONFIG=/home/bob/.kconf/prod'') \<and>
   listSymDir (bobs_world\<lparr>fs := rev (fs bobs_world)\<rparr>) ''/home/bob/.kconf''
     = Inr [\<lparr>Name = ''my'', Mode = modeOf (Symlink ''/etc/my.yml'')\<rparr>,
            \<lparr>Name = ''prod'', Mode = modeOf (Symlink ''/etc/prod.yml'')\<rparr>]"
proof -
  have a: "Atoi ''2'' = (2, None)" by (simp add: strconv_defs)
  have "distinct (map fst (fs bobs_world))"
    by (simp add: bobs_world_def)
  then have d: "set (fs (bobs_world\<lparr>fs := rev (fs bobs_world)\<rparr>)) = set (fs bobs_world) \<and>
           cwd (bobs_world\<lparr>fs := rev (fs bobs_world)\<rparr>) = cwd bobs_world \<and>
           distinct (map fst (fs bobs_world)) \<and>
           distinct (map fst (fs (bobs_world\<lparr>fs := rev (fs bobs_world)\<rparr>)))"
    by (simp add: rev_map [symmetric])
  from index_selects_listed_entry [OF bobs_listing a, of "[]" output_line] d
  show ?thesis
    by (simp add: output_line_def kubeConfigVar_def path_defs)
qed

text \<open>
  C1. What the bounds check of \<open>makeKubeconfig\<close> does with a number that is no index:
  a negative number and \<open>N + 1\<close> fail with \<^verbatim>\<open>index out of range\<close>, the world unchanged;
  0 passes the check, and the index expression \<^verbatim>\<open>files[idx-1]\<close> panics.
\<close>

theorem index_bounds:
  assumes "listSymDir w dir = Inr files" and "Atoi sel = (idx, None)"
  shows "(idx < 0 \<or> idx = int (length files) + 1 \<longrightarrow>
            makeKubeconfig w dir (sel # rest) result
              = (Return (Some (Errorf ''index out of range'')), w)) \<and>
         (idx = 0 \<longrightarrow> makeKubeconfig w dir (sel # rest) result = (Panic, w))"
  using assms by (simp add: makeKubeconfig_index)

theorem index_bounds_witness:
  "makeKubeconfig bobs_world ''/home/bob/.kconf'' [''0''] output_line = (Panic, bobs_world) \<and>
   makeKubeconfig bobs_world ''/home/bob/.kconf'' [''3''] output_line
     = (Return (Some (Errorf ''index out of range'')), bobs_world) \<and>
   makeKubeconfig bobs_world ''/home/bob/.kconf'' [''-1''] output_line
     = (Return (Some (Errorf ''index out of range'')), bobs_world)"
proof -
  have "Atoi ''0'' = (0, None)" "Atoi ''3'' = (3, None)" "Atoi ''-1'' = (-1, None)"
    by (simp_all add: strconv_defs)
  from this [THEN index_bounds [OF bobs_listing, of _ _ "[]" output_line]]
  show ?thesis by simp
qed

text \<open>
  C3. When the store directory cannot be read, Set and Remove with an argument return
  nil and leave the world as it is: nothing is printed and the error of the read is lost.
\<close>

theorem read_failure_returns_nil:
  assumes "args \<noteq> []" and "listSymDir w dir = Inl err"
  shows "setKubeconfig w dir args = (Return None, w) \<and>
         removeKubeconfig w dir args = (Return None, w)"
  using assms by (simp add: setKubeconfig_def removeKubeconfig_def makeKubeconfig_def)

theorem read_failure_returns_nil_witness:
  "listSymDir bobs_world ''/etc/prod.yml''
     = Inl (PathError ''readdirent'' ''/etc/prod.yml'' ENOTDIR) \<and>
   setKubeconfig bobs_world ''/etc/prod.yml'' [''1''] = (Return None, bobs_world) \<and>
   removeKubeconfig bobs_world ''/etc/prod.yml'' [''1''] = (Return None, bobs_world) \<and>
   main (\<lambda>s. s) (bobs_world\<lparr>environ := [(''KCONF_LIBRARY_PATH'', ''/etc/prod.yml'')]\<rparr>)
        False False False False [''kconf'', ''1'']
     = (0, bobs_world\<lparr>environ := [(''KCONF_LIBRARY_PATH'', ''/etc/prod.yml'')]\<rparr>)"
proof -
  have l: "listSymDir bobs_world ''/etc/prod.yml''
             = Inl (PathError ''readdirent'' ''/etc/prod.yml'' ENOTDIR)"
    by (simp add: listSymDir_def bobs_world_def os_defs path_defs)
  have l': "listSymDir (bobs_world\<lparr>environ := [(''KCONF_LIBRARY_PATH'', ''/etc/prod.yml'')]\<rparr>)
              ''/etc/prod.yml'' = Inl (PathError ''readdirent'' ''/etc/prod.yml'' ENOTDIR)"
    by (simp add: listSymDir_def bobs_world_def os_defs path_defs)
  have c: "configPath (bobs_world\<lparr>environ := [(''KCONF_LIBRARY_PATH'', ''/etc/prod.yml'')]\<rparr>)
             = ((''/etc/prod.yml'', None),
                bobs_world\<lparr>environ := [(''KCONF_LIBRARY_PATH'', ''/etc/prod.yml'')]\<rparr>)"
    by (simp add: configPath_def confPathVar_def exists_def bobs_world_def os_defs path_defs
        strings_defs Let_def)
  from read_failure_returns_nil [OF _ l, of "[''1'']"]
    read_failure_returns_nil [OF _ l', of "[''1'']"] l c
  show ?thesis
    by (simp add: main_def Flags_def Validate_def Args_def Handler_def sliceFrom_def Let_def)
qed





section \<open>Add, Set and Remove: the store\<close>









end
